theory Spec2Isabelle
  imports Complex_Main "HOL-Library.Char_ord" "HOL-Library.List_Lexorder"
begin

section \<open>Conservative spatial aggregation (conus404 spatial aggregation notebook)\<close>

text \<open>
  The notebook builds one polygon per grid cell, overlays the cells with the region
  polygons, turns the fragment areas into per-region fractions, unstacks them into a
  (y, x, region) array and multiplies every time slice of a variable by it.

  Numbers: the notebook computes in float64. Here a number is a \<open>real\<close>, so it is
  finite and not NaN, and sums, products and quotients are exact: the rounding of
  float64 and its overflow to infinity are not represented. The properties below are
  those that do not depend on either: which cells and regions an entry belongs to, the
  shapes, the errors raised, bounds that rounding preserves, and values that float64
  computes exactly. A division by a zero total, which gives NaN or an infinity in the
  notebook, returns \<open>None\<close>.

  Library calls (shapely's \<open>Polygon\<close>, pandas' groupby/transform, xarray's unstack,
  numpy's reshape, sparse's matmul) are modelled by what they return on the values the
  notebook passes them; a sparse array is modelled by its dense contents.
\<close>

datatype py_error = IndexError | ValueError | AssertionError | KeyError

text \<open>Sequencing of steps that may raise: the first error ends the computation.\<close>

definition and_then :: "py_error + 'a \<Rightarrow> ('a \<Rightarrow> py_error + 'b) \<Rightarrow> py_error + 'b" where
  "and_then r f = (case r of Inl e \<Rightarrow> Inl e | Inr v \<Rightarrow> f v)"

subsection \<open>Grid polygonizer\<close>

text \<open>Indexing a sequence with a constant non-negative index raises IndexError out of range.\<close>

definition getitem :: "'a list \<Rightarrow> nat \<Rightarrow> py_error + 'a" where
  "getitem xs i = (if i < length xs then Inr (xs ! i) else Inl IndexError)"

text \<open>
  A shapely polygon built from a list of vertices: the shell, in the order given. The
  coordinates are finite numbers; what shapely does with a NaN coordinate is not
  represented.
\<close>

datatype polygon = Polygon "(real \<times> real) list"

text \<open>
  \<^verbatim>\<open>
  def bounds_to_poly(x_bounds, y_bounds):
      return Polygon([
          (x_bounds[0], y_bounds[0]),
          (x_bounds[0], y_bounds[1]),
          (x_bounds[1], y_bounds[1]),
          (x_bounds[1], y_bounds[0])
      ])
  \<close>
  The eight subscripts are evaluated left to right; the first one out of range raises.
  The bounds are lists of finite numbers.
\<close>

definition bounds_to_poly :: "real list \<Rightarrow> real list \<Rightarrow> py_error + polygon" where
  "bounds_to_poly x_bounds y_bounds =
     and_then (getitem x_bounds 0) (\<lambda>xa.
     and_then (getitem y_bounds 0) (\<lambda>ya.
     and_then (getitem x_bounds 0) (\<lambda>xb.
     and_then (getitem y_bounds 1) (\<lambda>yb.
     and_then (getitem x_bounds 1) (\<lambda>xc.
     and_then (getitem y_bounds 1) (\<lambda>yc.
     and_then (getitem x_bounds 1) (\<lambda>xd.
     and_then (getitem y_bounds 0) (\<lambda>yd.
       Inr (Polygon [(xa, ya), (xb, yb), (xc, yc), (xd, yd)])))))))))"

text \<open>Twice the signed area of a ring (shoelace formula), to tell a degenerate polygon.\<close>

fun shoelace :: "(real \<times> real) list \<Rightarrow> real" where
  "shoelace ((xa, ya) # (xb, yb) # ps) = (xa * yb - xb * ya) + shoelace ((xb, yb) # ps)"
| "shoelace ps = 0"

definition ring_area :: "polygon \<Rightarrow> real" where
  "ring_area p = (case p of Polygon vs \<Rightarrow>
     (case vs of [] \<Rightarrow> 0 | v # _ \<Rightarrow> \<bar>shoelace (vs @ [v])\<bar> / 2))"

subsection \<open>Arrays\<close>

text \<open>
  A numpy or sparse array: its shape and its elements in row-major (C) order. The array
  is well formed when it holds as many elements as the shape says.
\<close>

record 'a ndarray =
  shape :: "nat list"
  buffer :: "'a list"

definition wf_array :: "'a ndarray \<Rightarrow> bool" where
  "wf_array a \<longleftrightarrow> length (buffer a) = prod_list (shape a)"

text \<open>Element (t, c) of a 2-D array and element (t, i, j) of a 3-D array.\<close>

definition item2 :: "'a ndarray \<Rightarrow> nat \<Rightarrow> nat \<Rightarrow> 'a" where
  "item2 a t c = buffer a ! (t * (shape a ! 1) + c)"

definition item3 :: "'a ndarray \<Rightarrow> nat \<Rightarrow> nat \<Rightarrow> nat \<Rightarrow> 'a" where
  "item3 a t i j = buffer a ! ((t * (shape a ! 1) + i) * (shape a ! 2) + j)"

text \<open>
  \<open>a.reshape(s)\<close>: the same elements in the same order under a new shape; ValueError
  when the new shape does not hold the array's size.
\<close>

definition reshape :: "'a ndarray \<Rightarrow> nat list \<Rightarrow> py_error + 'a ndarray" where
  "reshape a s = (if prod_list s = prod_list (shape a) then Inr (a\<lparr>shape := s\<rparr>) else Inl ValueError)"

text \<open>
  \<open>sparse.matmul\<close> of an (n, k) by a (k, m) array: the (n, m) array whose element
  (t, r), at position t * m + r, is the sum over c of a[t, c] * b[c, r]. The notebook
  calls it on 2-D operands only. The sum is the exact one: the rounding of each float64
  product and partial sum is not represented.
\<close>

definition matmul :: "real ndarray \<Rightarrow> real ndarray \<Rightarrow> py_error + real ndarray" where
  "matmul a b =
     (case shape a of
        [n, k] \<Rightarrow>
          (case shape b of
             [k', m] \<Rightarrow>
               if k = k'
               then Inr \<lparr>shape = [n, m],
                         buffer = map (\<lambda>p. \<Sum>c\<leftarrow>[0..<k]. buffer a ! ((p div m) * k + c) * buffer b ! (c * m + p mod m))
                                      [0..<n * m]\<rparr>
               else Inl ValueError
           | _ \<Rightarrow> Inl ValueError)
      | _ \<Rightarrow> Inl ValueError)"

subsection \<open>Regridder\<close>

text \<open>
  \<^verbatim>\<open>
  def apply_weights_matmul_sparse(weights, data):
      assert isinstance(weights, sparse.SparseArray)
      assert isinstance(data, np.ndarray)
      data = sparse.COO.from_numpy(data)
      data_shape = data.shape
      # k = nlat * nlon
      n, k = data_shape[0], data_shape[1] * data_shape[2]
      data = data.reshape((n, k))
      weights_shape = weights.shape
      k_, m = weights_shape[0] * weights_shape[1], weights_shape[2]
      assert k == k_
      weights_data = weights.reshape((k, m))
      regridded = sparse.matmul(data, weights_data)
      assert regridded.shape == (n, m)
      return regridded.todense()
  \<close>
  The two isinstance assertions hold by the types of the arguments; the source's
  \<open>k_\<close> is \<open>k'\<close> here.
\<close>

definition apply_weights_matmul_sparse :: "real ndarray \<Rightarrow> real ndarray \<Rightarrow> py_error + real ndarray" where
  "apply_weights_matmul_sparse weights data =
     (let data_shape = shape data in
      and_then (getitem data_shape 0) (\<lambda>n.
      and_then (getitem data_shape 1) (\<lambda>d1.
      and_then (getitem data_shape 2) (\<lambda>d2.
      let k = d1 * d2 in
      and_then (reshape data [n, k]) (\<lambda>data2.
      let weights_shape = shape weights in
      and_then (getitem weights_shape 0) (\<lambda>w0.
      and_then (getitem weights_shape 1) (\<lambda>w1.
      and_then (getitem weights_shape 2) (\<lambda>m.
      let k' = w0 * w1 in
      if k \<noteq> k' then Inl AssertionError
      else
        and_then (reshape weights [k, m]) (\<lambda>weights_data.
        and_then (matmul data2 weights_data) (\<lambda>regridded.
          if shape regridded \<noteq> [n, m] then Inl AssertionError else Inr regridded))))))))))"

subsection \<open>Weight builder\<close>

text \<open>
  A row of the \<open>overlay\<close> dataframe: the y and x coordinate of the grid cell, the
  region's name (the column \<open>region_name\<close>) and the area of the row's geometry
  (\<open>overlay.geometry.area\<close>). The overlay itself is computed by geopandas, and
  is an input here. Every row carries a name: rows with a missing name, which groupby
  would drop, are not modelled.
\<close>

record fragment =
  frag_y :: real
  frag_x :: real
  frag_name :: string
  frag_area :: real

text \<open>
  Float division as numpy does it: nothing is raised; a zero divisor gives NaN or an
  infinity, which is \<open>None\<close> here.
\<close>

definition fdiv :: "real \<Rightarrow> real \<Rightarrow> real option" where
  "fdiv a b = (if b = 0 then None else Some (a / b))"

text \<open>
  The sum of the numbers of a list whose elements are all finite, to state what a column
  of weights adds up to; \<open>None\<close> when an element is not finite.
\<close>

fun fsum :: "real option list \<Rightarrow> real option" where
  "fsum [] = Some 0"
| "fsum (None # vs) = None"
| "fsum (Some v # vs) = (case fsum vs of None \<Rightarrow> None | Some s \<Rightarrow> Some (v + s))"

text \<open>The group of a column under \<open>groupby(overlay[region_name])\<close>: the rows of one name.\<close>

definition group :: "fragment list \<Rightarrow> 'a list \<Rightarrow> string \<Rightarrow> 'a list" where
  "group overlay col r = map snd (filter (\<lambda>(f, v). frag_name f = r) (zip overlay col))"

text \<open>\<open>x.sum()\<close> for the group \<open>x\<close> of the areas of region \<open>r\<close>.\<close>

definition group_sum :: "fragment list \<Rightarrow> string \<Rightarrow> real" where
  "group_sum overlay r = sum_list (group overlay (map frag_area overlay) r)"

text \<open>
  \<^verbatim>\<open>
  grid_cell_fraction = overlay.geometry.area.groupby(overlay[region_name]).transform(lambda x: x / x.sum())
  \<close>
  One value per row of the overlay, in the overlay's order: the row's area divided by the
  total area of the rows of its region.
\<close>

definition grid_cell_fraction :: "fragment list \<Rightarrow> real option list" where
  "grid_cell_fraction overlay =
     map (\<lambda>f. fdiv (frag_area f) (group_sum overlay (frag_name f))) overlay"

text \<open>
  \<^verbatim>\<open>
  multi_index = overlay.set_index([y, x, region_name]).index
  df_weights = pd.DataFrame({"weights": grid_cell_fraction.values}, index=multi_index)
  \<close>
\<close>

definition multi_index :: "fragment list \<Rightarrow> (real \<times> real \<times> string) list" where
  "multi_index overlay = map (\<lambda>f. (frag_y f, frag_x f, frag_name f)) overlay"

definition df_weights :: "fragment list \<Rightarrow> ((real \<times> real \<times> string) \<times> real option) list" where
  "df_weights overlay = zip (multi_index overlay) (grid_cell_fraction overlay)"

text \<open>The values of one level of a MultiIndex: those that occur, once each, sorted.\<close>

definition level_values :: "'a::linorder list \<Rightarrow> 'a list" where
  "level_values vs = sort (remdups vs)"

text \<open>
  The DataArray \<open>weights_sparse\<close>: its three coordinates and its values, of shape
  (number of y values, number of x values, number of names).
\<close>

record weights_array =
  coord_y :: "real list"
  coord_x :: "real list"
  coord_name :: "string list"
  weight_values :: "real option ndarray"

text \<open>
  \<^verbatim>\<open>
  ds_weights = xr.Dataset(df_weights)
  weights_sparse = ds_weights.unstack(sparse=True, fill_value=0.).weights
  \<close>
  Unstacking needs a MultiIndex without duplicates (ValueError otherwise). Each level
  becomes a coordinate; the value at (y, x, name) is the row's when the index has this
  triple and \<open>fill_value\<close> otherwise.
\<close>

definition unstack ::
  "real option \<Rightarrow> ((real \<times> real \<times> string) \<times> real option) list \<Rightarrow> py_error + weights_array" where
  "unstack fill_value df =
     (if \<not> distinct (map fst df) then Inl ValueError
      else
        let ys = level_values (map (\<lambda>((yv, xv, nv), w). yv) df);
            xs = level_values (map (\<lambda>((yv, xv, nv), w). xv) df);
            ns = level_values (map (\<lambda>((yv, xv, nv), w). nv) df)
        in Inr \<lparr>coord_y = ys, coord_x = xs, coord_name = ns,
                 weight_values =
                   \<lparr>shape = [length ys, length xs, length ns],
                    buffer = concat (map (\<lambda>yv. concat (map (\<lambda>xv. map (\<lambda>nv.
                               (case map_of df (yv, xv, nv) of None \<Rightarrow> fill_value | Some w \<Rightarrow> w))
                               ns) xs)) ys)\<rparr>\<rparr>)"

definition weights_sparse :: "fragment list \<Rightarrow> py_error + weights_array" where
  "weights_sparse overlay = unstack (Some 0) (df_weights overlay)"

text \<open>
  The array handed to the regridder holds floats; it is an array of reals when none of
  them is NaN or infinite.
\<close>

definition finite_array :: "real option ndarray \<Rightarrow> real ndarray option" where
  "finite_array a =
     (if None \<in> set (buffer a) then None
      else Some \<lparr>shape = shape a, buffer = map the (buffer a)\<rparr>)"

text \<open>
  \<^verbatim>\<open>
  var_regridded = xr.apply_ufunc(
      apply_weights_matmul_sparse, weights_sparse, ds[var], join="left",
      input_core_dims=[[y, x, region_name], [y, x]],
      output_core_dims=[[region_name]], ...)
  \<close>
  The result carries the weights' name coordinate on its last axis. \<open>data\<close> is the
  variable on the y and x coordinates of the weights (xarray aligns it to them);
  \<open>None\<close> stands for weights that are not all finite.
\<close>

record regridded_series =
  series_name :: "string list"
  series_values :: "real ndarray"

definition var_regridded :: "weights_array \<Rightarrow> real ndarray \<Rightarrow> (py_error + regridded_series) option" where
  "var_regridded w data =
     (case finite_array (weight_values w) of
        None \<Rightarrow> None
      | Some wv \<Rightarrow>
          Some (and_then (apply_weights_matmul_sparse wv data)
                  (\<lambda>out. Inr \<lparr>series_name = coord_name w, series_values = out\<rparr>)))"

text \<open>
  Selecting one region by its label, as in
  \<^verbatim>\<open>var_regridded.sel(name=['Delaware Bay-Deep', 'Black Creek'])\<close>:
  the position of the label on the name coordinate, KeyError when it is not there. The
  selection is the region's column: one value per time step of the series, one value
  per grid cell (in row-major order) of the weights.
\<close>

fun index_of :: "'a \<Rightarrow> 'a list \<Rightarrow> nat option" where
  "index_of v [] = None"
| "index_of v (u # us) = (if u = v then Some 0 else map_option Suc (index_of v us))"

definition sel_name :: "regridded_series \<Rightarrow> string \<Rightarrow> py_error + real list" where
  "sel_name series r =
     (case index_of r (series_name series) of
        None \<Rightarrow> Inl KeyError
      | Some j \<Rightarrow> Inr (map (\<lambda>t. item2 (series_values series) t j)
                          [0..<shape (series_values series) ! 0]))"

definition sel_weights :: "weights_array \<Rightarrow> string \<Rightarrow> py_error + real option list" where
  "sel_weights w r =
     (case index_of r (coord_name w) of
        None \<Rightarrow> Inl KeyError
      | Some j \<Rightarrow> Inr (map (\<lambda>c. buffer (weight_values w) ! (c * length (coord_name w) + j))
                          [0..<length (coord_y w) * length (coord_x w)]))"

subsection \<open>Two scenarios\<close>

text \<open>
  A 4 by 4 grid of unit cells over x in [0, 4], y in [0, 4], with the regions
  \<open>left\<close> (x in [0, 2]) and \<open>right\<close> (x in [2, 4]): the overlay has one fragment of
  area 1 per cell, in the region the cell lies in. Cells are named by their centres.
\<close>

definition unit_cell :: "string \<Rightarrow> real \<Rightarrow> real \<Rightarrow> fragment" where
  "unit_cell r yv xv = \<lparr>frag_y = yv, frag_x = xv, frag_name = r, frag_area = 1\<rparr>"

definition overlay_4x4 :: "fragment list" where
  "overlay_4x4 =
     concat (map (\<lambda>yv. [unit_cell ''left'' yv (1/2), unit_cell ''left'' yv (3/2),
                         unit_cell ''right'' yv (5/2), unit_cell ''right'' yv (7/2)])
                 [1/2, 3/2, 5/2, 7/2])"

text \<open>
  A 2 by 2 grid of unit cells over x in [0, 2], y in [0, 2], with a region \<open>a\<close> that
  covers it and a region \<open>b\<close> that lies outside: the overlay has the four fragments
  of \<open>a\<close> and none of \<open>b\<close>.
\<close>

definition overlay_2x2 :: "fragment list" where
  "overlay_2x2 = [unit_cell ''a'' (1/2) (1/2), unit_cell ''a'' (1/2) (3/2),
                  unit_cell ''a'' (3/2) (1/2), unit_cell ''a'' (3/2) (3/2)]"

section \<open>Properties of the grid polygonizer\<close>

lemma bounds_to_poly_two_or_more:
  assumes "2 \<le> length x_bounds" and "2 \<le> length y_bounds"
  shows "bounds_to_poly x_bounds y_bounds =
     Inr (Polygon [(x_bounds ! 0, y_bounds ! 0), (x_bounds ! 0, y_bounds ! 1),
                   (x_bounds ! 1, y_bounds ! 1), (x_bounds ! 1, y_bounds ! 0)])"
  using assms by (auto simp: bounds_to_poly_def getitem_def and_then_def)

lemma bounds_to_poly_short:
  assumes "length x_bounds < 2 \<or> length y_bounds < 2"
  shows "bounds_to_poly x_bounds y_bounds = Inl IndexError"
  using assms by (auto simp: bounds_to_poly_def getitem_def and_then_def)

text \<open>
  C9. For every pair of 2-element bounds, monotonic or not, bounds_to_poly returns
  without error the ring with the vertices (x0, y0), (x0, y1), (x1, y1), (x1, y0) in
  this order; nothing is validated, so equal bounds give a zero-area polygon.
\<close>

theorem bounds_to_poly_total:
  "bounds_to_poly [xa, xb] [ya, yb] = Inr (Polygon [(xa, ya), (xa, yb), (xb, yb), (xb, ya)])
   \<and> map_sum id ring_area (bounds_to_poly [xa, xb] [ya, yb]) = Inr (\<bar>xb - xa\<bar> * \<bar>yb - ya\<bar>)
   \<and> map_sum id ring_area (bounds_to_poly [xa, xa] [ya, yb]) = Inr 0
   \<and> map_sum id ring_area (bounds_to_poly [xa, xb] [ya, ya]) = Inr 0"
proof -
  have "(xa * yb - xa * ya) + ((xa * yb - xb * yb) + ((xb * ya - xb * yb) + (xb * ya - xa * ya)))
        = 2 * ((xa - xb) * (yb - ya))"
    by (simp add: algebra_simps)
  then have "\<bar>(xa * yb - xa * ya) + ((xa * yb - xb * yb) + ((xb * ya - xb * yb) + (xb * ya - xa * ya)))\<bar> / 2
        = \<bar>xb - xa\<bar> * \<bar>yb - ya\<bar>"
    by (simp add: abs_mult abs_minus_commute)
  then show ?thesis
    by (simp add: bounds_to_poly_def getitem_def and_then_def ring_area_def)
qed

text \<open>
  C5, as the notebook has it, for bounds that are finite numbers. bounds_to_poly has no
  validation of its own: when each axis has at least 2 bounds it returns the
  quadrilateral of the first two bounds of each axis, whatever their order and however
  many follow; when an axis has fewer than 2 bounds the subscript raises IndexError.
  Bounds that are NaN are not covered.
\<close>

theorem bounds_to_poly_no_validation:
  "bounds_to_poly x_bounds y_bounds =
     (if 2 \<le> length x_bounds \<and> 2 \<le> length y_bounds
      then Inr (Polygon [(x_bounds ! 0, y_bounds ! 0), (x_bounds ! 0, y_bounds ! 1),
                         (x_bounds ! 1, y_bounds ! 1), (x_bounds ! 1, y_bounds ! 0)])
      else Inl IndexError)"
proof (cases "2 \<le> length x_bounds \<and> 2 \<le> length y_bounds")
  case True
  then show ?thesis by (simp add: bounds_to_poly_two_or_more)
next
  case False
  then have "length x_bounds < 2 \<or> length y_bounds < 2" by auto
  then show ?thesis using False by (simp add: bounds_to_poly_short)
qed

theorem bounds_to_poly_no_validation_witness:
  "bounds_to_poly [5, 3, 9] [4, 1] = Inr (Polygon [(5, 4), (5, 1), (3, 1), (3, 4)])
   \<and> bounds_to_poly [5] [4, 1] = Inl IndexError"
  using bounds_to_poly_no_validation [of "[5, 3, 9]" "[4, 1]"]
        bounds_to_poly_no_validation [of "[5]" "[4, 1]"]
  by simp

text \<open>
  C5, as the claim has it, fails: non-monotonic bounds, three bounds on an axis and equal
  bounds are all accepted, the last with a polygon of area 0.
\<close>

theorem bounds_to_poly_validation_counterexample:
  "bounds_to_poly [2, 1] [0, 1] = Inr (Polygon [(2, 0), (2, 1), (1, 1), (1, 0)])
   \<and> bounds_to_poly [0, 1, 2] [0, 1] = Inr (Polygon [(0, 0), (0, 1), (1, 1), (1, 0)])
   \<and> bounds_to_poly [1, 1] [0, 1] = Inr (Polygon [(1, 0), (1, 1), (1, 1), (1, 0)])
   \<and> ring_area (Polygon [(1, 0), (1, 1), (1, 1), (1, 0)]) = 0"
  by (simp add: bounds_to_poly_def getitem_def and_then_def ring_area_def)

section \<open>Properties of the regridder\<close>

text \<open>On 3-D operands the regridder either fails its shape assertion or returns the product.\<close>

lemma apply_weights_3d:
  assumes "shape data = [n, rows, cols]" and "shape weights = [wr, wc, m]"
  shows "apply_weights_matmul_sparse weights data =
     (if rows * cols \<noteq> wr * wc then Inl AssertionError
      else Inr \<lparr>shape = [n, m],
                buffer = map (\<lambda>p. \<Sum>c\<leftarrow>[0..<rows * cols].
                                buffer data ! ((p div m) * (rows * cols) + c) * buffer weights ! (c * m + p mod m))
                             [0..<n * m]\<rparr>)"
  using assms
  by (simp add: apply_weights_matmul_sparse_def getitem_def and_then_def reshape_def matmul_def Let_def mult.assoc)

lemma flat_index_bound:
  fixes t c n k :: nat
  assumes "t < n" and "c < k"
  shows "t * k + c < n * k"
proof -
  have "t * k + c < t * k + k" using assms by simp
  also have "\<dots> = Suc t * k" by simp
  also have "\<dots> \<le> n * k" using assms by (intro mult_le_mono1) simp
  finally show ?thesis .
qed

lemma div_less_rows:
  fixes p n m :: nat
  assumes "p < n * m"
  shows "p div m < n"
  using assms by (simp add: less_mult_imp_div_less)

text \<open>
  C2. For data of shape (n, rows, cols) and weights of shape (wr, wc, m) with
  rows * cols = wr * wc, the regridder returns an (n, m) array whose entry (t, r) is the
  sum over the flattened cells c of data[t, c] * weights[c, r], where the flattened
  operands are the reshapes to (n, rows * cols) and (rows * cols, m): cell (i, j) of a
  time step is flattened to i * cols + j.
\<close>

theorem regridder_matrix_product:
  assumes "shape data = [n, rows, cols]" and "shape weights = [wr, wc, m]"
    and "rows * cols = wr * wc" and "t < n" and "r < m"
  shows "\<exists>data2 weights_data out.
           reshape data [n, rows * cols] = Inr data2
         \<and> reshape weights [rows * cols, m] = Inr weights_data
         \<and> apply_weights_matmul_sparse weights data = Inr out
         \<and> matmul data2 weights_data = Inr out
         \<and> shape out = [n, m] \<and> wf_array out
         \<and> item2 out t r = (\<Sum>c\<leftarrow>[0..<rows * cols]. item2 data2 t c * item2 weights_data c r)
         \<and> (\<forall>i<rows. \<forall>j<cols. item2 data2 t (i * cols + j) = item3 data t i j)
         \<and> (\<forall>i<wr. \<forall>j<wc. item2 weights_data (i * wc + j) r = item3 weights i j r)"
proof -
  let ?k = "rows * cols"
  let ?out = "\<lparr>shape = [n, m],
               buffer = map (\<lambda>p. \<Sum>c\<leftarrow>[0..<?k].
                               buffer data ! ((p div m) * ?k + c) * buffer weights ! (c * m + p mod m))
                            [0..<n * m]\<rparr>"
  have d2: "reshape data [n, ?k] = Inr (data\<lparr>shape := [n, ?k]\<rparr>)"
    using assms(1) by (simp add: reshape_def mult.assoc)
  have w2: "reshape weights [?k, m] = Inr (weights\<lparr>shape := [?k, m]\<rparr>)"
    using assms(2,3) by (simp add: reshape_def mult.assoc)
  have out: "apply_weights_matmul_sparse weights data = Inr ?out"
    using apply_weights_3d [OF assms(1,2)] assms(3) by simp
  have mm: "matmul (data\<lparr>shape := [n, ?k]\<rparr>) (weights\<lparr>shape := [?k, m]\<rparr>) = Inr ?out"
    by (simp add: matmul_def)
  have p: "t * m + r < n * m"
    using assms(4,5) by (rule flat_index_bound)
  have entry: "item2 ?out t r
      = (\<Sum>c\<leftarrow>[0..<?k]. item2 (data\<lparr>shape := [n, ?k]\<rparr>) t c * item2 (weights\<lparr>shape := [?k, m]\<rparr>) c r)"
    using p assms(5) by (simp add: item2_def)
  have flat_d: "\<forall>i<rows. \<forall>j<cols. item2 (data\<lparr>shape := [n, ?k]\<rparr>) t (i * cols + j) = item3 data t i j"
    using assms(1) by (simp add: item2_def item3_def algebra_simps)
  have flat_w: "\<forall>i<wr. \<forall>j<wc. item2 (weights\<lparr>shape := [?k, m]\<rparr>) (i * wc + j) r = item3 weights i j r"
    using assms(2) by (simp add: item2_def item3_def algebra_simps)
  have wf: "wf_array ?out"
    by (simp add: wf_array_def)
  show ?thesis
    using d2 w2 out mm entry flat_d flat_w wf by simp
qed

theorem regridder_matrix_product_witness:
  "shape \<lparr>shape = [1, 2, 2], buffer = [1, 2, 3, 4 :: real]\<rparr> = [1, 2, 2]
   \<and> shape \<lparr>shape = [2, 2, 1], buffer = [1/4, 1/4, 1/4, 1/4 :: real]\<rparr> = [2, 2, 1]
   \<and> (2::nat) * 2 = 2 * 2 \<and> (0::nat) < 1
   \<and> (\<exists>out. apply_weights_matmul_sparse \<lparr>shape = [2, 2, 1], buffer = [1/4, 1/4, 1/4, 1/4]\<rparr>
                \<lparr>shape = [1, 2, 2], buffer = [1, 2, 3, 4]\<rparr> = Inr out
            \<and> shape out = [1, 1] \<and> wf_array out)"
proof -
  have h1: "shape \<lparr>shape = [1, 2, 2], buffer = [1, 2, 3, 4 :: real]\<rparr> = [1, 2, 2]" by simp
  have h2: "shape \<lparr>shape = [2, 2, 1], buffer = [1/4, 1/4, 1/4, 1/4 :: real]\<rparr> = [2, 2, 1]" by simp
  have h3: "(2::nat) * 2 = 2 * 2" by simp
  have h4: "(0::nat) < 1" by simp
  from regridder_matrix_product [OF h1 h2 h3 h4 h4]
  obtain out where "apply_weights_matmul_sparse \<lparr>shape = [2, 2, 1], buffer = [1/4, 1/4, 1/4, 1/4]\<rparr>
                \<lparr>shape = [1, 2, 2], buffer = [1, 2, 3, 4]\<rparr> = Inr out" and "shape out = [1, 1]" and "wf_array out"
    by blast
  then show ?thesis by simp
qed

text \<open>
  C3. For data of shape (n, rows, cols) and weights of shape (wr, wc, m), the regridder
  fails its assertion \<open>k == k_\<close> exactly when rows * cols differs from wr * wc, and
  returns a result exactly when they are equal.
\<close>

theorem regridder_shape_assertion:
  assumes "shape data = [n, rows, cols]" and "shape weights = [wr, wc, m]"
  shows "(apply_weights_matmul_sparse weights data = Inl AssertionError \<longleftrightarrow> rows * cols \<noteq> wr * wc)
       \<and> ((\<exists>out. apply_weights_matmul_sparse weights data = Inr out) \<longleftrightarrow> rows * cols = wr * wc)"
  using apply_weights_3d [OF assms] by simp

theorem regridder_shape_assertion_witness:
  "apply_weights_matmul_sparse \<lparr>shape = [2, 2, 1], buffer = [1/4, 1/4, 1/4, 1/4]\<rparr>
      \<lparr>shape = [1, 2, 3], buffer = [1, 2, 3, 4, 5, 6]\<rparr> = Inl AssertionError
   \<and> (\<exists>out. apply_weights_matmul_sparse \<lparr>shape = [2, 2, 1], buffer = [1/4, 1/4, 1/4, 1/4]\<rparr>
      \<lparr>shape = [1, 1, 4], buffer = [1, 2, 3, 4]\<rparr> = Inr out)"
proof -
  have w: "shape \<lparr>shape = [2, 2, 1], buffer = [1/4, 1/4, 1/4, 1/4 :: real]\<rparr> = [2, 2, 1]" by simp
  have d1: "shape \<lparr>shape = [1, 2, 3], buffer = [1, 2, 3, 4, 5, 6 :: real]\<rparr> = [1, 2, 3]" by simp
  have d2: "shape \<lparr>shape = [1, 1, 4], buffer = [1, 2, 3, 4 :: real]\<rparr> = [1, 1, 4]" by simp
  show ?thesis
    using regridder_shape_assertion [OF d1 w] regridder_shape_assertion [OF d2 w] by simp
qed

section \<open>Properties of the weight builder\<close>

lemma group_map:
  "group overlay (map g overlay) r = map g (filter (\<lambda>f. frag_name f = r) overlay)"
  unfolding group_def by (induction overlay) simp_all

lemma group_sum_filter:
  "group_sum overlay r = sum_list (map frag_area (filter (\<lambda>f. frag_name f = r) overlay))"
  by (simp add: group_sum_def group_map)

lemma grid_cell_fraction_nth:
  assumes "i < length overlay"
  shows "grid_cell_fraction overlay ! i
       = fdiv (frag_area (overlay ! i)) (group_sum overlay (frag_name (overlay ! i)))"
  using assms by (simp add: grid_cell_fraction_def)

text \<open>
  C8. When no fragment area is negative and a region's total fragment area is positive,
  every weight of a fragment of the region is a finite number in [0, 1].
\<close>

theorem weights_in_unit_interval:
  assumes "\<forall>f\<in>set overlay. 0 \<le> frag_area f" and "0 < group_sum overlay r"
    and "i < length overlay" and "frag_name (overlay ! i) = r"
  shows "\<exists>w. grid_cell_fraction overlay ! i = Some w \<and> 0 \<le> w \<and> w \<le> 1"
proof -
  let ?fs = "filter (\<lambda>f. frag_name f = r) overlay"
  have mem: "frag_area (overlay ! i) \<in> set (map frag_area ?fs)"
    using assms(3,4) by auto
  have nonneg: "\<And>v. v \<in> set (map frag_area ?fs) \<Longrightarrow> 0 \<le> v"
    using assms(1) by auto
  have le: "frag_area (overlay ! i) \<le> group_sum overlay r"
    unfolding group_sum_filter using mem nonneg by (rule member_le_sum_list)
  have ge: "0 \<le> frag_area (overlay ! i)"
    using assms(1,3) by simp
  have "grid_cell_fraction overlay ! i = Some (frag_area (overlay ! i) / group_sum overlay r)"
    using assms(2,3,4) by (simp add: grid_cell_fraction_nth fdiv_def)
  moreover have "0 \<le> frag_area (overlay ! i) / group_sum overlay r"
    using ge assms(2) by simp
  moreover have "frag_area (overlay ! i) / group_sum overlay r \<le> 1"
    using le assms(2) by simp
  ultimately show ?thesis by simp
qed

theorem weights_in_unit_interval_witness:
  "list_all (\<lambda>f. 0 \<le> frag_area f) overlay_2x2 \<and> 0 < group_sum overlay_2x2 ''a''
   \<and> 1 < length overlay_2x2 \<and> frag_name (overlay_2x2 ! 1) = ''a''
   \<and> (\<exists>w. grid_cell_fraction overlay_2x2 ! 1 = Some w \<and> 0 \<le> w \<and> w \<le> 1)"
proof -
  have h1: "\<forall>f\<in>set overlay_2x2. 0 \<le> frag_area f"
    by (simp add: overlay_2x2_def unit_cell_def)
  have h2: "0 < group_sum overlay_2x2 ''a''"
    by (simp add: group_sum_def group_def overlay_2x2_def unit_cell_def)
  have h3: "1 < length overlay_2x2"
    by (simp add: overlay_2x2_def)
  have h4: "frag_name (overlay_2x2 ! 1) = ''a''"
    by (simp add: overlay_2x2_def unit_cell_def)
  show ?thesis
    using h1 h2 h3 h4 weights_in_unit_interval [OF h1 h2 h3 h4] by (simp add: list_all_iff)
qed

section \<open>Properties of the pipeline\<close>

lemma index_of_None: "index_of v vs = None \<longleftrightarrow> v \<notin> set vs"
  by (induction vs) auto

lemma set_level_values: "set (level_values vs) = set vs"
  by (simp add: level_values_def)

lemma length_grid_cell_fraction: "length (grid_cell_fraction overlay) = length overlay"
  by (simp add: grid_cell_fraction_def)

lemma df_weights_index: "map fst (df_weights overlay) = multi_index overlay"
  by (simp add: df_weights_def multi_index_def length_grid_cell_fraction)

lemma df_weights_names:
  "map (\<lambda>((yv, xv, nv), w). nv) (df_weights overlay) = map frag_name overlay"
proof -
  have "map (\<lambda>((yv, xv, nv), w). nv) (df_weights overlay)
      = map (\<lambda>(yv, xv, nv). nv) (map fst (df_weights overlay))"
    by (simp add: comp_def case_prod_unfold)
  also have "\<dots> = map frag_name overlay"
    by (simp add: df_weights_index multi_index_def comp_def)
  finally show ?thesis .
qed

lemma weights_sparse_result:
  "weights_sparse overlay =
     (if \<not> distinct (multi_index overlay) then Inl ValueError
      else Inr \<lparr>coord_y = level_values (map frag_y overlay),
                coord_x = level_values (map frag_x overlay),
                coord_name = level_values (map frag_name overlay),
                weight_values =
                  \<lparr>shape = [length (level_values (map frag_y overlay)),
                            length (level_values (map frag_x overlay)),
                            length (level_values (map frag_name overlay))],
                   buffer = concat (map (\<lambda>yv. concat (map (\<lambda>xv. map (\<lambda>nv.
                               (case map_of (df_weights overlay) (yv, xv, nv) of None \<Rightarrow> Some 0 | Some w \<Rightarrow> w))
                               (level_values (map frag_name overlay)))
                               (level_values (map frag_x overlay))))
                               (level_values (map frag_y overlay)))\<rparr>\<rparr>)"
proof -
  have y: "map (\<lambda>((yv, xv, nv), w). yv) (df_weights overlay) = map frag_y overlay"
  proof -
    have "map (\<lambda>((yv, xv, nv), w). yv) (df_weights overlay)
        = map (\<lambda>(yv, xv, nv). yv) (map fst (df_weights overlay))"
      by (simp add: comp_def case_prod_unfold)
    then show ?thesis by (simp add: df_weights_index multi_index_def comp_def)
  qed
  have x: "map (\<lambda>((yv, xv, nv), w). xv) (df_weights overlay) = map frag_x overlay"
  proof -
    have "map (\<lambda>((yv, xv, nv), w). xv) (df_weights overlay)
        = map (\<lambda>(yv, xv, nv). xv) (map fst (df_weights overlay))"
      by (simp add: comp_def case_prod_unfold)
    then show ?thesis by (simp add: df_weights_index multi_index_def comp_def)
  qed
  show ?thesis
    unfolding weights_sparse_def unstack_def df_weights_index y x df_weights_names Let_def
    by simp
qed

lemma var_regridded_names:
  assumes "var_regridded w data = Some (Inr out)"
  shows "series_name out = coord_name w"
  using assms
  by (auto simp: var_regridded_def and_then_def split: option.splits sum.splits)

lemma weights_2x2:
  "weights_sparse overlay_2x2 =
     Inr \<lparr>coord_y = [1/2, 3/2], coord_x = [1/2, 3/2], coord_name = [''a''],
          weight_values = \<lparr>shape = [2, 2, 1], buffer = [Some (1/4), Some (1/4), Some (1/4), Some (1/4)]\<rparr>\<rparr>"
  by (simp add: weights_sparse_def unstack_def df_weights_def multi_index_def grid_cell_fraction_def
        group_sum_def group_def fdiv_def level_values_def overlay_2x2_def unit_cell_def Let_def)

text \<open>
  C4, as the notebook has it. A region without fragments gets no row of df_weights. The
  weights are built whenever the index of the overlay has no duplicate; their name
  coordinate holds exactly the names that occur in the overlay, so the region has no
  column in the weights and no entry in the regridded series: selecting it raises
  KeyError.
\<close>

theorem uncovered_region_absent:
  assumes "r \<notin> frag_name ` set overlay"
  shows "r \<notin> (\<lambda>((yv, xv, nv), w). nv) ` set (df_weights overlay)
       \<and> ((\<exists>w. weights_sparse overlay = Inr w) \<longleftrightarrow> distinct (multi_index overlay))
       \<and> (\<forall>w. weights_sparse overlay = Inr w \<longrightarrow>
             set (coord_name w) = frag_name ` set overlay
           \<and> shape (weight_values w) = [length (coord_y w), length (coord_x w), length (coord_name w)]
           \<and> sel_weights w r = Inl KeyError
           \<and> (\<forall>data out. var_regridded w data = Some (Inr out) \<longrightarrow>
                 series_name out = coord_name w \<and> sel_name out r = Inl KeyError))"
proof -
  have entries: "r \<notin> (\<lambda>((yv, xv, nv), w). nv) ` set (df_weights overlay)"
  proof -
    have "(\<lambda>((yv, xv, nv), w). nv) ` set (df_weights overlay)
        = set (map (\<lambda>((yv, xv, nv), w). nv) (df_weights overlay))"
      by simp
    also have "\<dots> = frag_name ` set overlay"
      unfolding df_weights_names by simp
    finally show ?thesis using assms by simp
  qed
  have ok: "(\<exists>w. weights_sparse overlay = Inr w) \<longleftrightarrow> distinct (multi_index overlay)"
    by (simp add: weights_sparse_result)
  have rest: "set (coord_name w) = frag_name ` set overlay
           \<and> shape (weight_values w) = [length (coord_y w), length (coord_x w), length (coord_name w)]
           \<and> sel_weights w r = Inl KeyError
           \<and> (\<forall>data out. var_regridded w data = Some (Inr out) \<longrightarrow>
                 series_name out = coord_name w \<and> sel_name out r = Inl KeyError)"
    if w: "weights_sparse overlay = Inr w" for w
  proof -
    have names: "coord_name w = level_values (map frag_name overlay)"
      and shp: "shape (weight_values w) = [length (coord_y w), length (coord_x w), length (coord_name w)]"
      using w by (auto simp: weights_sparse_result split: if_splits)
    have set_names: "set (coord_name w) = frag_name ` set overlay"
      by (simp add: names set_level_values)
    then have absent: "index_of r (coord_name w) = None"
      using assms by (simp add: index_of_None)
    have "sel_name out r = Inl KeyError" if "var_regridded w data = Some (Inr out)" for data out
      using var_regridded_names [OF that] absent by (simp add: sel_name_def)
    then show ?thesis
      using set_names shp absent var_regridded_names by (simp add: sel_weights_def)
  qed
  show ?thesis
    using entries ok rest by blast
qed

theorem uncovered_region_absent_witness:
  "''b'' \<notin> frag_name ` set overlay_2x2
   \<and> (\<exists>w. weights_sparse overlay_2x2 = Inr w \<and> set (coord_name w) = frag_name ` set overlay_2x2
          \<and> sel_weights w ''b'' = Inl KeyError)"
proof -
  have h: "''b'' \<notin> frag_name ` set overlay_2x2"
    by (simp add: overlay_2x2_def unit_cell_def)
  show ?thesis
    using h weights_2x2 uncovered_region_absent [OF h] by simp
qed

text \<open>
  C4, as the claim has it, fails on the 2 by 2 grid: the weights have the single column
  of region a, of shape (2, 2, 1), and the series has the single entry of a per time
  step; for region b there is neither a column of zeros nor an output of zeros.
\<close>

theorem uncovered_region_counterexample:
  "''b'' \<notin> frag_name ` set overlay_2x2
   \<and> weights_sparse overlay_2x2 =
       Inr \<lparr>coord_y = [1/2, 3/2], coord_x = [1/2, 3/2], coord_name = [''a''],
            weight_values = \<lparr>shape = [2, 2, 1], buffer = [Some (1/4), Some (1/4), Some (1/4), Some (1/4)]\<rparr>\<rparr>
   \<and> sel_weights \<lparr>coord_y = [1/2, 3/2], coord_x = [1/2, 3/2], coord_name = [''a''],
            weight_values = \<lparr>shape = [2, 2, 1], buffer = [Some (1/4), Some (1/4), Some (1/4), Some (1/4)]\<rparr>\<rparr> ''b''
       \<noteq> Inr [Some 0, Some 0, Some 0, Some 0]
   \<and> var_regridded \<lparr>coord_y = [1/2, 3/2], coord_x = [1/2, 3/2], coord_name = [''a''],
            weight_values = \<lparr>shape = [2, 2, 1], buffer = [Some (1/4), Some (1/4), Some (1/4), Some (1/4)]\<rparr>\<rparr>
          \<lparr>shape = [2, 2, 2], buffer = [1, 2, 3, 4, 5, 6, 7, 8]\<rparr>
       = Some (Inr \<lparr>series_name = [''a''], series_values = \<lparr>shape = [2, 1], buffer = [5/2, 13/2]\<rparr>\<rparr>)
   \<and> sel_name \<lparr>series_name = [''a''], series_values = \<lparr>shape = [2, 1], buffer = [5/2, 13/2]\<rparr>\<rparr> ''b''
       \<noteq> Inr [0, 0]"
proof -
  have a: "''b'' \<notin> frag_name ` set overlay_2x2"
    by (simp add: overlay_2x2_def unit_cell_def)
  have b: "sel_weights \<lparr>coord_y = [1/2, 3/2], coord_x = [1/2, 3/2], coord_name = [''a''],
            weight_values = \<lparr>shape = [2, 2, 1], buffer = [Some (1/4), Some (1/4), Some (1/4), Some (1/4)]\<rparr>\<rparr> ''b''
       = Inl KeyError"
    by (simp add: sel_weights_def)
  have c: "var_regridded \<lparr>coord_y = [1/2, 3/2], coord_x = [1/2, 3/2], coord_name = [''a''],
            weight_values = \<lparr>shape = [2, 2, 1], buffer = [Some (1/4), Some (1/4), Some (1/4), Some (1/4)]\<rparr>\<rparr>
          \<lparr>shape = [2, 2, 2], buffer = [1, 2, 3, 4, 5, 6, 7, 8]\<rparr>
       = Some (Inr \<lparr>series_name = [''a''], series_values = \<lparr>shape = [2, 1], buffer = [5/2, 13/2]\<rparr>\<rparr>)"
    by (simp add: var_regridded_def finite_array_def and_then_def apply_weights_matmul_sparse_def
          getitem_def reshape_def matmul_def Let_def upt_conv_Cons)
  have d: "sel_name \<lparr>series_name = [''a''], series_values = \<lparr>shape = [2, 1], buffer = [5/2, 13/2]\<rparr>\<rparr> ''b''
       = Inl KeyError"
    by (simp add: sel_name_def)
  show ?thesis
    using a weights_2x2 b c d by simp
qed

lemma regrid_constant:
  assumes "shape w = [wr, wc, m]" and "rows * cols = wr * wc"
  shows "apply_weights_matmul_sparse w \<lparr>shape = [n, rows, cols], buffer = replicate (n * (rows * cols)) v\<rparr>
       = Inr \<lparr>shape = [n, m],
              buffer = map (\<lambda>p. v * (\<Sum>c\<leftarrow>[0..<rows * cols]. buffer w ! (c * m + p mod m))) [0..<n * m]\<rparr>"
proof -
  let ?k = "rows * cols"
  let ?d = "\<lparr>shape = [n, rows, cols], buffer = replicate (n * ?k) v\<rparr>"
  have entry: "(\<Sum>c\<leftarrow>[0..<?k]. buffer ?d ! ((p div m) * ?k + c) * buffer w ! (c * m + p mod m))
      = v * (\<Sum>c\<leftarrow>[0..<?k]. buffer w ! (c * m + p mod m))" if "p \<in> set [0..<n * m]" for p
  proof -
    have t: "p div m < n" using that by (simp add: div_less_rows)
    have "(\<Sum>c\<leftarrow>[0..<?k]. buffer ?d ! ((p div m) * ?k + c) * buffer w ! (c * m + p mod m))
        = (\<Sum>c\<leftarrow>[0..<?k]. v * buffer w ! (c * m + p mod m))"
    proof (rule arg_cong [where f = sum_list], rule map_cong [OF refl])
      fix c assume "c \<in> set [0..<?k]"
      then have "(p div m) * ?k + c < n * ?k" using t by (simp add: flat_index_bound)
      then show "buffer ?d ! ((p div m) * ?k + c) * buffer w ! (c * m + p mod m)
               = v * buffer w ! (c * m + p mod m)"
        by simp
    qed
    then show ?thesis by (simp add: sum_list_const_mult)
  qed
  have "shape ?d = [n, rows, cols]" by simp
  from apply_weights_3d [OF this assms(1)] assms(2)
  have "apply_weights_matmul_sparse w ?d
      = Inr \<lparr>shape = [n, m],
             buffer = map (\<lambda>p. \<Sum>c\<leftarrow>[0..<?k]. buffer ?d ! ((p div m) * ?k + c) * buffer w ! (c * m + p mod m))
                          [0..<n * m]\<rparr>"
    by simp
  also have "map (\<lambda>p. \<Sum>c\<leftarrow>[0..<?k]. buffer ?d ! ((p div m) * ?k + c) * buffer w ! (c * m + p mod m)) [0..<n * m]
      = map (\<lambda>p. v * (\<Sum>c\<leftarrow>[0..<?k]. buffer w ! (c * m + p mod m))) [0..<n * m]"
    using entry by (intro map_cong) simp_all
  finally show ?thesis .
qed

lemma weights_4x4:
  "weights_sparse overlay_4x4 =
     Inr \<lparr>coord_y = [1/2, 3/2, 5/2, 7/2], coord_x = [1/2, 3/2, 5/2, 7/2],
          coord_name = [''left'', ''right''],
          weight_values = \<lparr>shape = [4, 4, 2],
            buffer = [Some (1/8), Some 0, Some (1/8), Some 0, Some 0, Some (1/8), Some 0, Some (1/8),
                      Some (1/8), Some 0, Some (1/8), Some 0, Some 0, Some (1/8), Some 0, Some (1/8),
                      Some (1/8), Some 0, Some (1/8), Some 0, Some 0, Some (1/8), Some 0, Some (1/8),
                      Some (1/8), Some 0, Some (1/8), Some 0, Some 0, Some (1/8), Some 0, Some (1/8)]\<rparr>\<rparr>"
  by code_simp

lemma sel_name_constant:
  assumes "index_of r names = Some j" and "j < m"
  shows "sel_name \<lparr>series_name = names, series_values = \<lparr>shape = [n, m], buffer = replicate (n * m) v\<rparr>\<rparr> r
       = Inr (replicate n v)"
proof -
  have "map (\<lambda>t. replicate (n * m) v ! (t * m + j)) [0..<n] = map (\<lambda>t. v) [0..<n]"
    using assms(2) by (intro map_cong) (simp_all add: flat_index_bound)
  then show ?thesis
    using assms(1) by (simp add: sel_name_def item2_def map_replicate_const)
qed

text \<open>
  C7. On the 4 by 4 grid with the regions left and right, the weights have the name
  coordinate [left, right]; in the left column the 8 cells of the left half (the first two
  cells of each row of the grid) have weight 1/8 and the others 0, in the right column
  the left half has weight 0; each column sums to 1; and a variable that is 10 at every
  cell of every one of n time steps regrids to 10 for both regions at every time step.
\<close>

theorem scenario_4x4_regrid:
  "\<exists>w. weights_sparse overlay_4x4 = Inr w
     \<and> coord_y w = [1/2, 3/2, 5/2, 7/2] \<and> coord_x w = [1/2, 3/2, 5/2, 7/2]
     \<and> coord_name w = [''left'', ''right'']
     \<and> shape (weight_values w) = [4, 4, 2]
     \<and> sel_weights w ''left'' =
         Inr [Some (1/8), Some (1/8), Some 0, Some 0, Some (1/8), Some (1/8), Some 0, Some 0,
              Some (1/8), Some (1/8), Some 0, Some 0, Some (1/8), Some (1/8), Some 0, Some 0]
     \<and> sel_weights w ''right'' =
         Inr [Some 0, Some 0, Some (1/8), Some (1/8), Some 0, Some 0, Some (1/8), Some (1/8),
              Some 0, Some 0, Some (1/8), Some (1/8), Some 0, Some 0, Some (1/8), Some (1/8)]
     \<and> map_sum id fsum (sel_weights w ''left'') = Inr (Some 1)
     \<and> map_sum id fsum (sel_weights w ''right'') = Inr (Some 1)
     \<and> var_regridded w \<lparr>shape = [n, 4, 4], buffer = replicate (n * 16) 10\<rparr>
         = Some (Inr \<lparr>series_name = [''left'', ''right''],
                      series_values = \<lparr>shape = [n, 2], buffer = replicate (n * 2) 10\<rparr>\<rparr>)
     \<and> sel_name \<lparr>series_name = [''left'', ''right''],
                  series_values = \<lparr>shape = [n, 2], buffer = replicate (n * 2) 10\<rparr>\<rparr> ''left''
         = Inr (replicate n 10)
     \<and> sel_name \<lparr>series_name = [''left'', ''right''],
                  series_values = \<lparr>shape = [n, 2], buffer = replicate (n * 2) 10\<rparr>\<rparr> ''right''
         = Inr (replicate n 10)"
proof -
  let ?b = "[1/8, 0, 1/8, 0, 0, 1/8, 0, 1/8, 1/8, 0, 1/8, 0, 0, 1/8, 0, 1/8,
             1/8, 0, 1/8, 0, 0, 1/8, 0, 1/8, 1/8, 0, 1/8, 0, 0, 1/8, 0, 1/8 :: real]"
  let ?bs = "[Some (1/8), Some 0, Some (1/8), Some 0, Some 0, Some (1/8), Some 0, Some (1/8),
              Some (1/8), Some 0, Some (1/8), Some 0, Some 0, Some (1/8), Some 0, Some (1/8),
              Some (1/8), Some 0, Some (1/8), Some 0, Some 0, Some (1/8), Some 0, Some (1/8),
              Some (1/8), Some 0, Some (1/8), Some 0, Some 0, Some (1/8), Some 0, Some (1/8 :: real)]"
  let ?wv = "\<lparr>shape = [4, 4, 2], buffer = ?bs\<rparr>"
  let ?w = "\<lparr>coord_y = [1/2, 3/2, 5/2, 7/2], coord_x = [1/2, 3/2, 5/2, 7/2],
            coord_name = [''left'', ''right''], weight_values = ?wv\<rparr>"
  have w: "weights_sparse overlay_4x4 = Inr ?w"
    using weights_4x4 by simp
  have left: "sel_weights ?w ''left'' =
         Inr [Some (1/8), Some (1/8), Some 0, Some 0, Some (1/8), Some (1/8), Some 0, Some 0,
              Some (1/8), Some (1/8), Some 0, Some 0, Some (1/8), Some (1/8), Some 0, Some 0]"
    by (simp add: sel_weights_def upt_conv_Cons)
  have right: "sel_weights ?w ''right'' =
         Inr [Some 0, Some 0, Some (1/8), Some (1/8), Some 0, Some 0, Some (1/8), Some (1/8),
              Some 0, Some 0, Some (1/8), Some (1/8), Some 0, Some 0, Some (1/8), Some (1/8)]"
    by (simp add: sel_weights_def upt_conv_Cons)
  have fin: "finite_array ?wv = Some \<lparr>shape = [4, 4, 2], buffer = ?b\<rparr>"
    by (simp add: finite_array_def)
  have col0: "(\<Sum>c\<leftarrow>[0..<4 * 4]. ?b ! (c * 2 + 0)) = 1"
    by (simp add: upt_conv_Cons)
  have col1: "(\<Sum>c\<leftarrow>[0..<4 * 4]. ?b ! (c * 2 + 1)) = 1"
    by (simp add: upt_conv_Cons)
  have col: "(\<Sum>c\<leftarrow>[0..<4 * 4]. ?b ! (c * 2 + p mod 2)) = 1" for p :: nat
  proof (cases "p mod 2 = 0")
    case True
    then show ?thesis using col0 by simp
  next
    case False
    then have "p mod 2 = 1" by presburger
    then show ?thesis using col1 by simp
  qed
  have "apply_weights_matmul_sparse \<lparr>shape = [4, 4, 2], buffer = ?b\<rparr>
          \<lparr>shape = [n, 4, 4], buffer = replicate (n * (4 * 4)) 10\<rparr>
      = Inr \<lparr>shape = [n, 2],
             buffer = map (\<lambda>p. 10 * (\<Sum>c\<leftarrow>[0..<4 * 4]. ?b ! (c * 2 + p mod 2))) [0..<n * 2]\<rparr>"
    using regrid_constant [of "\<lparr>shape = [4, 4, 2], buffer = ?b\<rparr>" 4 4 2 4 4 n 10] by simp
  then have app: "apply_weights_matmul_sparse \<lparr>shape = [4, 4, 2], buffer = ?b\<rparr>
          \<lparr>shape = [n, 4, 4], buffer = replicate (n * 16) 10\<rparr>
      = Inr \<lparr>shape = [n, 2], buffer = replicate (n * 2) 10\<rparr>"
    unfolding col by (simp add: map_replicate_const)
  have regrid: "var_regridded ?w \<lparr>shape = [n, 4, 4], buffer = replicate (n * 16) 10\<rparr>
         = Some (Inr \<lparr>series_name = [''left'', ''right''],
                      series_values = \<lparr>shape = [n, 2], buffer = replicate (n * 2) 10\<rparr>\<rparr>)"
    unfolding var_regridded_def by (simp add: fin app and_then_def)
  have sl: "sel_name \<lparr>series_name = [''left'', ''right''],
                  series_values = \<lparr>shape = [n, 2], buffer = replicate (n * 2) 10\<rparr>\<rparr> ''left''
         = Inr (replicate n 10)"
    by (rule sel_name_constant [where j = 0]) simp_all
  have sr: "sel_name \<lparr>series_name = [''left'', ''right''],
                  series_values = \<lparr>shape = [n, 2], buffer = replicate (n * 2) 10\<rparr>\<rparr> ''right''
         = Inr (replicate n 10)"
    by (rule sel_name_constant [where j = 1]) simp_all
  show ?thesis
    apply (rule exI [of _ ?w])
    apply (simp only: w left right regrid sl sr)
    apply simp
    done
qed

end
